theory Spec2Isabelle
  imports
    Main
    "HOL-Library.Char_ord"
    "HOL-Library.List_Lexorder"
    "HOL-Library.Multiset"
    "HOL-Library.Sublist"
begin

section \<open>The batch pair processor of openpiv/tools.py\<close>

text \<open>
  The class \<^verbatim>\<open>Multiprocesser\<close> of \<^verbatim>\<open>openpiv/tools.py\<close> lists two sets of image
  files by glob pattern, sorts each, checks that they pair up, and applies a function of
  the caller to every pair, in a loop or through a process pool. The module is
  Python 2 (\<^verbatim>\<open>xrange\<close>, the \<^verbatim>\<open>print\<close> statement in its docstrings): paths are byte
  strings, modelled as \<^typ>\<open>string\<close>, and \<^verbatim>\<open>sorted\<close> compares them byte by byte,
  which is the lexicographic order of \<^typ>\<open>char list\<close> over the order of characters by
  code.
\<close>

subsection \<open>Exceptions\<close>

text \<open>
  A raised exception is its class name and its message. The module raises only
  \<^verbatim>\<open>ValueError\<close>; the function of the caller may raise anything.
\<close>

datatype exn = Exn (exn_type: string) (exn_message: string)

definition ValueError :: "string \<Rightarrow> exn" where
  "ValueError msg = Exn ''ValueError'' msg"

text \<open>The two messages of \<^verbatim>\<open>__init__\<close>, character for character.\<close>

definition msg_unequal :: string where
  \<open>msg_unequal = ''Something failed loading the image file. There should be an equal number of "a" and "b" files.''\<close>

definition msg_no_images :: string where
  \<open>msg_no_images = ''Something failed loading the image file. No images were found. Please check directory and image template name.''\<close>

subsection \<open>The host: working directory and filesystem\<close>

text \<open>
  \<^verbatim>\<open>os.path.abspath\<close> depends on the working directory and \<^verbatim>\<open>glob.glob\<close> on the
  filesystem; both belong to the Python library, not to this module, so the host is a
  parameter: \<open>abspath\<close> maps a path to its absolute form and \<open>glob\<close> maps a pattern to
  its matches, in the order in which the filesystem enumerates them.
\<close>

record host =
  abspath :: "string \<Rightarrow> string"
  glob :: "string \<Rightarrow> string list"

text \<open>
  \<^verbatim>\<open>os.path.join(a, b)\<close> of \<^verbatim>\<open>posixpath\<close>, for two arguments: an absolute \<open>b\<close>
  replaces \<open>a\<close>; otherwise \<open>b\<close> is appended, after a slash unless \<open>a\<close> is empty or
  ends with one.
\<close>

definition path_join :: "string \<Rightarrow> string \<Rightarrow> string" where
  "path_join a b =
     (if b \<noteq> [] \<and> hd b = CHR ''/'' then b
      else if a = [] \<or> last a = CHR ''/'' then a @ b
      else a @ ''/'' @ b)"

subsection \<open>Construction\<close>

record multiprocesser =
  files_a :: "string list"
  files_b :: "string list"
  n_files :: int

text \<open>
  \<^verbatim>\<open>Multiprocesser.__init__\<close>: both file lists are globbed and sorted, the count is
  that of the first list, then the two checks follow in the order of the source. A raise
  in the constructor leaves no object: the result is \<open>Inl\<close> of the exception.
\<close>

definition Multiprocesser_init ::
  "host \<Rightarrow> string \<Rightarrow> string \<Rightarrow> string \<Rightarrow> exn + multiprocesser" where
  "Multiprocesser_init h data_dir pattern_a pattern_b =
     (let fa = sort (glob h (path_join (abspath h data_dir) pattern_a));
          fb = sort (glob h (path_join (abspath h data_dir) pattern_b));
          n = int (length fa)
      in if \<not> (length fa = length fb) then Inl (ValueError msg_unequal)
         else if \<not> (length fa \<noteq> 0) then Inl (ValueError msg_no_images)
         else Inr \<lparr>files_a = fa, files_b = fb, n_files = n\<rparr>)"

subsection \<open>Running\<close>

type_synonym workitem = "string \<times> string \<times> int"

text \<open>\<^verbatim>\<open>xrange(n)\<close>: the integers from 0 up to \<open>n - 1\<close>, none when \<open>n \<le> 0\<close>.\<close>

definition xrange :: "int \<Rightarrow> int list" where
  "xrange n = map int [0 ..< nat n]"

text \<open>\<^verbatim>\<open>zip\<close> of three sequences stops with the shortest.\<close>

fun zip3 :: "'a list \<Rightarrow> 'b list \<Rightarrow> 'c list \<Rightarrow> ('a \<times> 'b \<times> 'c) list" where
  "zip3 (x # xs) (y # ys) (z # zs) = (x, y, z) # zip3 xs ys zs"
| "zip3 _ _ _ = []"

text \<open>The task list that \<^verbatim>\<open>run\<close> builds first.\<close>

definition image_pairs :: "multiprocesser \<Rightarrow> workitem list" where
  "image_pairs m = zip3 (files_a m) (files_b m) (xrange (n_files m))"

text \<open>
  The function of the caller acts on the world outside (it reads images and writes result
  files) and may raise: it maps a task and a world to an optional exception and the
  world it leaves. It is taken to return, as the module takes it to.

  The outcome of a run is the exception that left \<^verbatim>\<open>run\<close>, if any, the tasks the
  function was called with, in call order (a ghost log of the calls), and the final
  world.
\<close>

type_synonym 's pair_fn = "workitem \<Rightarrow> 's \<Rightarrow> exn option \<times> 's"

record 's outcome =
  raised :: "exn option"
  calls :: "workitem list"
  world :: 's

text \<open>
  The loop \<^verbatim>\<open>for image_pair in image_pairs: func(image_pair)\<close>: each call starts in
  the world the previous one left, and an exception of \<open>func\<close> leaves the loop at once.
\<close>

fun for_loop :: "'s pair_fn \<Rightarrow> workitem list \<Rightarrow> workitem list \<Rightarrow> 's \<Rightarrow> 's outcome" where
  "for_loop func [] log s = \<lparr>raised = None, calls = log, world = s\<rparr>"
| "for_loop func (w # ws) log s =
     (case func w s of
        (Some e, s') \<Rightarrow> \<lparr>raised = Some e, calls = log @ [w], world = s'\<rparr>
      | (None, s') \<Rightarrow> for_loop func ws (log @ [w]) s')"

text \<open>
  \<^verbatim>\<open>multiprocessing.Pool(processes = n_cpus).map(func, image_pairs)\<close> is the library's
  process pool: what it does with the tasks is a parameter of \<open>run\<close>.
\<close>

type_synonym 's pool = "int \<Rightarrow> 's pair_fn \<Rightarrow> workitem list \<Rightarrow> 's \<Rightarrow> 's outcome"

definition run :: "'s pool \<Rightarrow> multiprocesser \<Rightarrow> 's pair_fn \<Rightarrow> int \<Rightarrow> 's \<Rightarrow> 's outcome" where
  "run pool_map m func n_cpus s =
     (let tasks = image_pairs m
      in if n_cpus > 1 then pool_map n_cpus func tasks s
         else for_loop func tasks [] s)"

text \<open>
  The use of the class, as in its docstring: construct, then run. When the constructor
  raises, \<^verbatim>\<open>run\<close> is never reached.
\<close>

definition construct_and_run ::
  "host \<Rightarrow> 's pool \<Rightarrow> string \<Rightarrow> string \<Rightarrow> string \<Rightarrow> 's pair_fn \<Rightarrow> int \<Rightarrow> 's \<Rightarrow> 's outcome" where
  "construct_and_run h pool_map data_dir pattern_a pattern_b func n_cpus s =
     (case Multiprocesser_init h data_dir pattern_a pattern_b of
        Inl e \<Rightarrow> \<lparr>raised = Some e, calls = [], world = s\<rparr>
      | Inr m \<Rightarrow> run pool_map m func n_cpus s)"

subsection \<open>Example hosts and functions\<close>

text \<open>
  The closed examples below run on a host with a single directory: \<open>abspath\<close> returns
  the (absolute, normalised) base directory unchanged, and a pattern matches the full
  paths of the directory's files that fit it, in the order of the listing. In a pattern
  \<^verbatim>\<open>*\<close> stands for any run of characters and \<^verbatim>\<open>?\<close> for any single one, as in
  the library's \<^verbatim>\<open>fnmatch\<close>; the examples use no bracket expressions.
\<close>

fun wild_match :: "string \<Rightarrow> string \<Rightarrow> bool" where
  "wild_match [] s = (s = [])"
| "wild_match (p # ps) [] = (p = CHR ''*'' \<and> wild_match ps [])"
| "wild_match (p # ps) (c # cs) =
     (if p = CHR ''*'' then wild_match ps (c # cs) \<or> wild_match (p # ps) cs
      else (p = CHR ''?'' \<or> p = c) \<and> wild_match ps cs)"

definition single_dir_host :: "string \<Rightarrow> string list \<Rightarrow> host" where
  "single_dir_host dir names =
     \<lparr>abspath = (\<lambda>p. p),
      glob = (\<lambda>pat. filter (wild_match pat) (map (path_join dir) names))\<rparr>"

text \<open>The directory of the spec's scenario, enumerated in two different orders.\<close>

definition png_host :: host where
  "png_host = single_dir_host ''/data''
     [''img_001_b.png'', ''img_000_a.png'', ''img_001_a.png'', ''img_000_b.png'']"

definition png_host_reversed :: host where
  "png_host_reversed = single_dir_host ''/data''
     [''img_000_b.png'', ''img_001_a.png'', ''img_000_a.png'', ''img_001_b.png'']"

definition png_processor :: multiprocesser where
  "png_processor =
     \<lparr>files_a = [''/data/img_000_a.png'', ''/data/img_001_a.png''],
      files_b = [''/data/img_000_b.png'', ''/data/img_001_b.png''],
      n_files = 2\<rparr>"

text \<open>Three first frames and two second frames.\<close>

definition bmp_host_3_2 :: host where
  "bmp_host_3_2 = single_dir_host ''/home/user/images''
     [''image_2_a.bmp'', ''image_1_b.bmp'', ''image_1_a.bmp'', ''image_3_a.bmp'',
      ''image_2_b.bmp'']"

text \<open>One second frame and no first frame; and an empty directory.\<close>

definition lone_b_host :: host where
  "lone_b_host = single_dir_host ''/home/user/images'' [''image_1_b.bmp'']"

definition empty_host :: host where
  "empty_host = single_dir_host ''/home/user/images'' []"

text \<open>A directory whose file \<^verbatim>\<open>a1\<close> fits both patterns \<^verbatim>\<open>a*\<close> and \<^verbatim>\<open>*1\<close>.\<close>

definition overlap_host :: host where
  "overlap_host = single_dir_host ''/d'' [''b1'', ''a1'', ''a0'']"



text \<open>
  An example function of the caller: the world is the list of the indices whose result
  file has been written; on the indices in \<open>bad\<close> it raises an \<^verbatim>\<open>IOError\<close> naming
  the first file and writes nothing.
\<close>

definition save_unless :: "int list \<Rightarrow> int list pair_fn" where
  "save_unless bad = (\<lambda>(file_a, file_b, i) written.
     if i \<in> set bad then (Some (Exn ''IOError'' file_a), written)
     else (None, written @ [i]))"

text \<open>
  With \<open>n_cpus \<le> 1\<close> no pool is made; the closed examples of such runs pass this
  stand-in, which calls nothing.
\<close>

definition absent_pool :: "'s pool" where
  "absent_pool n_cpus func tasks s = \<lparr>raised = None, calls = [], world = s\<rparr>"

section \<open>Auxiliary facts\<close>

lemma zip3_length: "length (zip3 xs ys zs) = min (length xs) (min (length ys) (length zs))"
  by (induction xs ys zs rule: zip3.induct) simp_all

lemma zip3_nth:
  "i < length xs \<Longrightarrow> i < length ys \<Longrightarrow> i < length zs \<Longrightarrow>
   zip3 xs ys zs ! i = (xs ! i, ys ! i, zs ! i)"
proof (induction xs ys zs arbitrary: i rule: zip3.induct)
  case (1 x xs y ys z zs)
  then show ?case by (cases i) simp_all
qed simp_all


lemma length_xrange: "length (xrange n) = nat n"
  by (simp add: xrange_def)

lemma xrange_nth: "i < nat n \<Longrightarrow> xrange n ! i = int i"
  by (simp add: xrange_def)



lemma sort_Nil_iff: "sort xs = [] \<longleftrightarrow> xs = []"
  using length_sort [of "\<lambda>x. x" xs] by (metis length_0_conv)

lemma init_success:
  assumes "Multiprocesser_init h data_dir pattern_a pattern_b = Inr m"
  shows "files_a m = sort (glob h (path_join (abspath h data_dir) pattern_a))"
    and "files_b m = sort (glob h (path_join (abspath h data_dir) pattern_b))"
    and "n_files m = int (length (files_a m))"
    and "length (files_a m) = length (files_b m)"
    and "files_a m \<noteq> []"
  using assms
  by (auto simp: Multiprocesser_init_def Let_def sort_Nil_iff split: if_splits)

lemma init_failure:
  assumes "Multiprocesser_init h data_dir pattern_a pattern_b = Inl e"
  shows "e = ValueError msg_unequal \<or> e = ValueError msg_no_images"
  using assms by (auto simp: Multiprocesser_init_def Let_def split: if_splits)

lemma image_pairs_length:
  "n_files m = int (length (files_a m)) \<Longrightarrow> length (files_a m) = length (files_b m) \<Longrightarrow>
   length (image_pairs m) = length (files_a m)"
  by (simp add: image_pairs_def zip3_length length_xrange)

lemma image_pairs_nth:
  "n_files m = int (length (files_a m)) \<Longrightarrow> length (files_a m) = length (files_b m) \<Longrightarrow>
   i < length (files_a m) \<Longrightarrow> image_pairs m ! i = (files_a m ! i, files_b m ! i, int i)"
  by (simp add: image_pairs_def zip3_nth length_xrange xrange_nth)








subsection \<open>The example hosts, evaluated\<close>

lemma png_init:
  "Multiprocesser_init png_host ''/data'' ''img_*_a.png'' ''img_*_b.png'' = Inr png_processor"
  by code_simp

lemma png_reversed_init:
  "Multiprocesser_init png_host_reversed ''/data'' ''img_*_a.png'' ''img_*_b.png'' = Inr png_processor"
  by code_simp

lemma png_pairs:
  "image_pairs png_processor =
     [(''/data/img_000_a.png'', ''/data/img_000_b.png'', 0),
      (''/data/img_001_a.png'', ''/data/img_001_b.png'', 1)]"
  by code_simp



lemma msgs_differ: "msg_unequal \<noteq> msg_no_images"
  by (simp add: msg_unequal_def msg_no_images_def)

lemma bmp_3_2_globs:
  "glob bmp_host_3_2 (path_join (abspath bmp_host_3_2 ''/home/user/images'') ''image_*_a.bmp'') =
     [''/home/user/images/image_2_a.bmp'', ''/home/user/images/image_1_a.bmp'',
      ''/home/user/images/image_3_a.bmp'']"
  "glob bmp_host_3_2 (path_join (abspath bmp_host_3_2 ''/home/user/images'') ''image_*_b.bmp'') =
     [''/home/user/images/image_1_b.bmp'', ''/home/user/images/image_2_b.bmp'']"
  by code_simp+

lemma lone_b_globs:
  "glob lone_b_host (path_join (abspath lone_b_host ''/home/user/images'') ''image_*_a.bmp'') = []"
  "glob lone_b_host (path_join (abspath lone_b_host ''/home/user/images'') ''image_*_b.bmp'') =
     [''/home/user/images/image_1_b.bmp'']"
  by code_simp+

lemma empty_globs:
  "glob empty_host (path_join (abspath empty_host ''/home/user/images'') ''image_*_a.bmp'') = []"
  "glob empty_host (path_join (abspath empty_host ''/home/user/images'') ''image_*_b.bmp'') = []"
  by code_simp+

lemma overlap_globs:
  "glob overlap_host (path_join (abspath overlap_host ''/d'') ''a*'') = [''/d/a1'', ''/d/a0'']"
  "glob overlap_host (path_join (abspath overlap_host ''/d'') ''*1'') = [''/d/b1'', ''/d/a1'']"
  by code_simp+

lemma init_unequal:
  "length (glob h (path_join (abspath h data_dir) pattern_a)) \<noteq>
   length (glob h (path_join (abspath h data_dir) pattern_b)) \<Longrightarrow>
   Multiprocesser_init h data_dir pattern_a pattern_b = Inl (ValueError msg_unequal)"
  by (simp add: Multiprocesser_init_def Let_def)

lemma init_no_images:
  "glob h (path_join (abspath h data_dir) pattern_a) = [] \<Longrightarrow>
   glob h (path_join (abspath h data_dir) pattern_b) = [] \<Longrightarrow>
   Multiprocesser_init h data_dir pattern_a pattern_b = Inl (ValueError msg_no_images)"
  by (simp add: Multiprocesser_init_def Let_def)

lemma init_ok:
  "length (glob h (path_join (abspath h data_dir) pattern_a)) =
   length (glob h (path_join (abspath h data_dir) pattern_b)) \<Longrightarrow>
   glob h (path_join (abspath h data_dir) pattern_a) \<noteq> [] \<Longrightarrow>
   Multiprocesser_init h data_dir pattern_a pattern_b =
     Inr \<lparr>files_a = sort (glob h (path_join (abspath h data_dir) pattern_a)),
          files_b = sort (glob h (path_join (abspath h data_dir) pattern_b)),
          n_files = int (length (glob h (path_join (abspath h data_dir) pattern_a)))\<rparr>"
  by (auto simp: Multiprocesser_init_def Let_def)

lemma ValueError_inject: "ValueError a = ValueError b \<longleftrightarrow> a = b"
  by (simp add: ValueError_def)

section \<open>Construction\<close>

text \<open>
  C1. Whenever construction succeeds, the two file lists are the sorted matches of the two
  patterns, the task list has the length of each of them, and its task number \<open>i\<close> is
  the triple of the \<open>i\<close>-th first frame, the \<open>i\<close>-th second frame and \<open>i\<close>. For the
  directory \<^verbatim>\<open>/data\<close> holding \<^verbatim>\<open>img_000_a.png\<close>, \<^verbatim>\<open>img_001_a.png\<close>,
  \<^verbatim>\<open>img_000_b.png\<close> and \<^verbatim>\<open>img_001_b.png\<close>, with the patterns \<^verbatim>\<open>img_*_a.png\<close> and
  \<^verbatim>\<open>img_*_b.png\<close>, the tasks are these files' paths paired as (000 a, 000 b, 0) and
  (001 a, 001 b, 1).
\<close>

theorem work_items_positional:
  "(\<forall>h data_dir pattern_a pattern_b m.
      Multiprocesser_init h data_dir pattern_a pattern_b = Inr m \<longrightarrow>
        files_a m = sort (glob h (path_join (abspath h data_dir) pattern_a)) \<and>
        files_b m = sort (glob h (path_join (abspath h data_dir) pattern_b)) \<and>
        length (image_pairs m) = length (files_a m) \<and>
        length (image_pairs m) = length (files_b m) \<and>
        (\<forall>i < length (image_pairs m).
           image_pairs m ! i = (files_a m ! i, files_b m ! i, int i))) \<and>
   (\<exists>m. Multiprocesser_init png_host ''/data'' ''img_*_a.png'' ''img_*_b.png'' = Inr m \<and>
        image_pairs m =
          [(''/data/img_000_a.png'', ''/data/img_000_b.png'', 0),
           (''/data/img_001_a.png'', ''/data/img_001_b.png'', 1)])"
proof (intro conjI allI impI)
  fix h data_dir pattern_a pattern_b m
  assume ok: "Multiprocesser_init h data_dir pattern_a pattern_b = Inr m"
  note facts = init_success [OF ok]
  show "files_a m = sort (glob h (path_join (abspath h data_dir) pattern_a))"
    by (rule facts(1))
  show "files_b m = sort (glob h (path_join (abspath h data_dir) pattern_b))"
    by (rule facts(2))
  show len: "length (image_pairs m) = length (files_a m)"
    by (rule image_pairs_length [OF facts(3) facts(4)])
  then show "length (image_pairs m) = length (files_b m)"
    using facts(4) by simp
  fix i
  assume "i < length (image_pairs m)"
  then have "i < length (files_a m)" using len by simp
  then show "image_pairs m ! i = (files_a m ! i, files_b m ! i, int i)"
    by (rule image_pairs_nth [OF facts(3) facts(4)])
next
  show "\<exists>m. Multiprocesser_init png_host ''/data'' ''img_*_a.png'' ''img_*_b.png'' = Inr m \<and>
        image_pairs m =
          [(''/data/img_000_a.png'', ''/data/img_000_b.png'', 0),
           (''/data/img_001_a.png'', ''/data/img_001_b.png'', 1)]"
    using png_init png_pairs by blast
qed

theorem work_items_positional_witness:
  "Multiprocesser_init png_host_reversed ''/data'' ''img_*_a.png'' ''img_*_b.png'' = Inr png_processor \<and>
   length (image_pairs png_processor) = length (files_a png_processor) \<and>
   length (image_pairs png_processor) = 2 \<and>
   1 < length (image_pairs png_processor) \<and>
   image_pairs png_processor ! 1 = (''/data/img_001_a.png'', ''/data/img_001_b.png'', 1)"
proof -
  note ok = png_reversed_init
  from work_items_positional have gen:
    "length (image_pairs png_processor) = length (files_a png_processor) \<and>
     (\<forall>i < length (image_pairs png_processor).
        image_pairs png_processor ! i = (files_a png_processor ! i, files_b png_processor ! i, int i))"
    using ok by blast
  have two: "length (files_a png_processor) = 2" by (simp add: png_processor_def)
  with gen have "1 < length (image_pairs png_processor)" by simp
  with gen have "image_pairs png_processor ! 1 =
    (files_a png_processor ! 1, files_b png_processor ! 1, int 1)" by blast
  then have "image_pairs png_processor ! 1 = (''/data/img_001_a.png'', ''/data/img_001_b.png'', 1)"
    by (simp add: png_processor_def)
  with gen two ok show ?thesis by simp
qed

text \<open>
  C2. Whenever the two patterns match different numbers of files, construction raises the
  \<^verbatim>\<open>ValueError\<close> that asks for an equal number of "a" and "b" files: no object and no
  task list come to exist, and a script that constructs and then runs never calls its
  function and leaves the world as it was, whatever the function, the pool and the number
  of processes.
\<close>

theorem unequal_counts_raise:
  assumes "length (glob h (path_join (abspath h data_dir) pattern_a)) \<noteq>
           length (glob h (path_join (abspath h data_dir) pattern_b))"
  shows "Multiprocesser_init h data_dir pattern_a pattern_b = Inl (ValueError msg_unequal) \<and>
         (\<forall>m. Multiprocesser_init h data_dir pattern_a pattern_b \<noteq> Inr m) \<and>
         construct_and_run h pool_map data_dir pattern_a pattern_b func n_cpus s =
           \<lparr>raised = Some (ValueError msg_unequal), calls = [], world = s\<rparr>"
  using init_unequal [OF assms] by (simp add: construct_and_run_def)

theorem unequal_counts_raise_witness:
  "length (glob bmp_host_3_2 (path_join (abspath bmp_host_3_2 ''/home/user/images'') ''image_*_a.bmp'')) = 3 \<and>
   length (glob bmp_host_3_2 (path_join (abspath bmp_host_3_2 ''/home/user/images'') ''image_*_b.bmp'')) = 2 \<and>
   Multiprocesser_init bmp_host_3_2 ''/home/user/images'' ''image_*_a.bmp'' ''image_*_b.bmp'' =
     Inl (ValueError msg_unequal) \<and>
   calls (construct_and_run bmp_host_3_2 absent_pool ''/home/user/images'' ''image_*_a.bmp''
            ''image_*_b.bmp'' (save_unless []) 4 []) = []"
proof -
  have differ:
    "length (glob bmp_host_3_2 (path_join (abspath bmp_host_3_2 ''/home/user/images'') ''image_*_a.bmp'')) \<noteq>
     length (glob bmp_host_3_2 (path_join (abspath bmp_host_3_2 ''/home/user/images'') ''image_*_b.bmp''))"
    by (simp add: bmp_3_2_globs)
  from unequal_counts_raise [OF differ, of absent_pool "save_unless []" 4 "[]"]
  show ?thesis by (simp add: bmp_3_2_globs)
qed

text \<open>
  C3, as stated, fails: with no first frame and one second frame the counts differ, the
  first check of \<^verbatim>\<open>__init__\<close> fires, and the error raised is the one about unequal
  numbers, not the one about no images.
\<close>

theorem lone_second_frame_counterexample:
  "glob lone_b_host (path_join (abspath lone_b_host ''/home/user/images'') ''image_*_a.bmp'') = [] \<and>
   Multiprocesser_init lone_b_host ''/home/user/images'' ''image_*_a.bmp'' ''image_*_b.bmp'' =
     Inl (ValueError msg_unequal) \<and>
   Multiprocesser_init lone_b_host ''/home/user/images'' ''image_*_a.bmp'' ''image_*_b.bmp'' \<noteq>
     Inl (ValueError msg_no_images)"
proof -
  have "Multiprocesser_init lone_b_host ''/home/user/images'' ''image_*_a.bmp'' ''image_*_b.bmp'' =
     Inl (ValueError msg_unequal)"
    by (rule init_unequal) (simp add: lone_b_globs)
  then show ?thesis by (simp add: lone_b_globs ValueError_inject msgs_differ)
qed

text \<open>
  C3, amended. Whenever at least one pattern matches no file, construction raises a
  \<^verbatim>\<open>ValueError\<close> before anything is processed: the one saying that no images were
  found exactly when both patterns match nothing, and the one about unequal numbers when
  only one of them does.
\<close>

theorem no_match_raises:
  assumes "glob h (path_join (abspath h data_dir) pattern_a) = [] \<or>
           glob h (path_join (abspath h data_dir) pattern_b) = []"
  shows "(\<exists>msg. Multiprocesser_init h data_dir pattern_a pattern_b = Inl (ValueError msg)) \<and>
         (Multiprocesser_init h data_dir pattern_a pattern_b = Inl (ValueError msg_no_images) \<longleftrightarrow>
            glob h (path_join (abspath h data_dir) pattern_a) = [] \<and>
            glob h (path_join (abspath h data_dir) pattern_b) = []) \<and>
         (Multiprocesser_init h data_dir pattern_a pattern_b = Inl (ValueError msg_unequal) \<longleftrightarrow>
            glob h (path_join (abspath h data_dir) pattern_a) \<noteq> [] \<or>
            glob h (path_join (abspath h data_dir) pattern_b) \<noteq> []) \<and>
         calls (construct_and_run h pool_map data_dir pattern_a pattern_b func n_cpus s) = [] \<and>
         world (construct_and_run h pool_map data_dir pattern_a pattern_b func n_cpus s) = s"
proof (cases "glob h (path_join (abspath h data_dir) pattern_a) = [] \<and>
              glob h (path_join (abspath h data_dir) pattern_b) = []")
  case True
  then have "Multiprocesser_init h data_dir pattern_a pattern_b = Inl (ValueError msg_no_images)"
    by (simp add: init_no_images)
  with True show ?thesis
    using msgs_differ by (auto simp: ValueError_inject construct_and_run_def)
next
  case False
  with assms have "length (glob h (path_join (abspath h data_dir) pattern_a)) \<noteq>
                   length (glob h (path_join (abspath h data_dir) pattern_b))"
    by auto
  then have "Multiprocesser_init h data_dir pattern_a pattern_b = Inl (ValueError msg_unequal)"
    by (rule init_unequal)
  with False show ?thesis
    using msgs_differ by (auto simp: ValueError_inject construct_and_run_def)
qed

theorem no_match_raises_witness:
  "glob empty_host (path_join (abspath empty_host ''/home/user/images'') ''image_*_a.bmp'') = [] \<and>
   Multiprocesser_init empty_host ''/home/user/images'' ''image_*_a.bmp'' ''image_*_b.bmp'' =
     Inl (ValueError msg_no_images)"
proof -
  have none: "glob empty_host (path_join (abspath empty_host ''/home/user/images'') ''image_*_a.bmp'') = [] \<or>
    glob empty_host (path_join (abspath empty_host ''/home/user/images'') ''image_*_b.bmp'') = []"
    by (simp add: empty_globs)
  from no_match_raises [OF none, of absent_pool "save_unless []" 1 "[]"]
  show ?thesis by (simp add: empty_globs)
qed

text \<open>
  C5. Construction depends on the matches of each pattern and not on the order in which
  the filesystem enumerates them: two hosts that give the base directory the same absolute
  form and each pattern the same matches, in whatever order, yield the same result, be it
  the same error or the same processor with the same task list; the file lists of a
  processor are sorted and hold exactly the matches.
\<close>

theorem construction_deterministic:
  assumes "abspath h1 data_dir = abspath h2 data_dir"
    and "mset (glob h1 (path_join (abspath h1 data_dir) pattern_a)) =
         mset (glob h2 (path_join (abspath h2 data_dir) pattern_a))"
    and "mset (glob h1 (path_join (abspath h1 data_dir) pattern_b)) =
         mset (glob h2 (path_join (abspath h2 data_dir) pattern_b))"
  shows "Multiprocesser_init h1 data_dir pattern_a pattern_b =
         Multiprocesser_init h2 data_dir pattern_a pattern_b \<and>
         map_sum id image_pairs (Multiprocesser_init h1 data_dir pattern_a pattern_b) =
         map_sum id image_pairs (Multiprocesser_init h2 data_dir pattern_a pattern_b) \<and>
         (\<forall>m. Multiprocesser_init h1 data_dir pattern_a pattern_b = Inr m \<longrightarrow>
              sorted (files_a m) \<and> sorted (files_b m) \<and>
              mset (files_a m) = mset (glob h2 (path_join (abspath h2 data_dir) pattern_a)) \<and>
              mset (files_b m) = mset (glob h2 (path_join (abspath h2 data_dir) pattern_b)))"
proof -
  have a: "sort (glob h1 (path_join (abspath h1 data_dir) pattern_a)) =
           sort (glob h2 (path_join (abspath h2 data_dir) pattern_a))"
    using assms(2) by (intro properties_for_sort) simp_all
  have b: "sort (glob h1 (path_join (abspath h1 data_dir) pattern_b)) =
           sort (glob h2 (path_join (abspath h2 data_dir) pattern_b))"
    using assms(3) by (intro properties_for_sort) simp_all
  have same: "Multiprocesser_init h1 data_dir pattern_a pattern_b =
              Multiprocesser_init h2 data_dir pattern_a pattern_b"
    unfolding Multiprocesser_init_def a b ..
  have "sorted (files_a m) \<and> sorted (files_b m) \<and>
        mset (files_a m) = mset (glob h2 (path_join (abspath h2 data_dir) pattern_a)) \<and>
        mset (files_b m) = mset (glob h2 (path_join (abspath h2 data_dir) pattern_b))"
    if "Multiprocesser_init h1 data_dir pattern_a pattern_b = Inr m" for m
    using init_success(1,2) [OF that] assms(2,3) by simp
  with same show ?thesis by simp
qed

theorem construction_deterministic_witness:
  "glob png_host (path_join (abspath png_host ''/data'') ''img_*_a.png'') \<noteq>
   glob png_host_reversed (path_join (abspath png_host_reversed ''/data'') ''img_*_a.png'') \<and>
   Multiprocesser_init png_host ''/data'' ''img_*_a.png'' ''img_*_b.png'' =
   Multiprocesser_init png_host_reversed ''/data'' ''img_*_a.png'' ''img_*_b.png'' \<and>
   Multiprocesser_init png_host ''/data'' ''img_*_a.png'' ''img_*_b.png'' = Inr png_processor \<and>
   sorted (files_a png_processor)"
proof -
  have ga: "glob png_host (path_join (abspath png_host ''/data'') ''img_*_a.png'') =
              [''/data/img_000_a.png'', ''/data/img_001_a.png'']"
    and ga': "glob png_host_reversed (path_join (abspath png_host_reversed ''/data'') ''img_*_a.png'') =
              [''/data/img_001_a.png'', ''/data/img_000_a.png'']"
    and gb: "glob png_host (path_join (abspath png_host ''/data'') ''img_*_b.png'') =
              [''/data/img_001_b.png'', ''/data/img_000_b.png'']"
    and gb': "glob png_host_reversed (path_join (abspath png_host_reversed ''/data'') ''img_*_b.png'') =
              [''/data/img_000_b.png'', ''/data/img_001_b.png'']"
    by code_simp+
  have abs: "abspath png_host ''/data'' = abspath png_host_reversed ''/data''"
    by (simp add: png_host_def png_host_reversed_def single_dir_host_def)
  have ma: "mset (glob png_host (path_join (abspath png_host ''/data'') ''img_*_a.png'')) =
            mset (glob png_host_reversed (path_join (abspath png_host_reversed ''/data'') ''img_*_a.png''))"
    by (simp add: ga ga')
  have mb: "mset (glob png_host (path_join (abspath png_host ''/data'') ''img_*_b.png'')) =
            mset (glob png_host_reversed (path_join (abspath png_host_reversed ''/data'') ''img_*_b.png''))"
    by (simp add: gb gb')
  from construction_deterministic [OF abs ma mb] png_init
  show ?thesis by (simp add: ga ga')
qed

text \<open>
  C9. Every failure of construction is a \<^verbatim>\<open>ValueError\<close>: the error for unequal counts
  and the error for no files have the same exception class and differ in their message
  only, and both do occur.
\<close>

theorem construction_errors_share_type:
  "(Multiprocesser_init h data_dir pattern_a pattern_b = Inl e \<longrightarrow>
      exn_type e = ''ValueError'' \<and>
      (exn_message e = msg_unequal \<or> exn_message e = msg_no_images)) \<and>
   exn_type (ValueError msg_unequal) = exn_type (ValueError msg_no_images) \<and>
   exn_message (ValueError msg_unequal) \<noteq> exn_message (ValueError msg_no_images) \<and>
   Multiprocesser_init bmp_host_3_2 ''/home/user/images'' ''image_*_a.bmp'' ''image_*_b.bmp'' =
     Inl (ValueError msg_unequal) \<and>
   Multiprocesser_init empty_host ''/home/user/images'' ''image_*_a.bmp'' ''image_*_b.bmp'' =
     Inl (ValueError msg_no_images)"
proof (intro conjI impI)
  assume "Multiprocesser_init h data_dir pattern_a pattern_b = Inl e"
  from init_failure [OF this]
  show "exn_type e = ''ValueError''"
    and "exn_message e = msg_unequal \<or> exn_message e = msg_no_images"
    by (auto simp: ValueError_def)
next
  show "exn_type (ValueError msg_unequal) = exn_type (ValueError msg_no_images)"
    by (simp add: ValueError_def)
  show "exn_message (ValueError msg_unequal) \<noteq> exn_message (ValueError msg_no_images)"
    using msgs_differ by (simp add: ValueError_def)
  show "Multiprocesser_init bmp_host_3_2 ''/home/user/images'' ''image_*_a.bmp'' ''image_*_b.bmp'' =
     Inl (ValueError msg_unequal)"
    by (rule init_unequal) (simp add: bmp_3_2_globs)
  show "Multiprocesser_init empty_host ''/home/user/images'' ''image_*_a.bmp'' ''image_*_b.bmp'' =
     Inl (ValueError msg_no_images)"
    by (rule init_no_images) (simp_all add: empty_globs)
qed

theorem construction_errors_share_type_witness:
  "Multiprocesser_init lone_b_host ''/home/user/images'' ''image_*_a.bmp'' ''image_*_b.bmp'' =
     Inl (Exn ''ValueError'' msg_unequal) \<and>
   exn_type (Exn ''ValueError'' msg_unequal) = ''ValueError'' \<and>
   exn_type (Exn ''ValueError'' msg_unequal) = exn_type (Exn ''ValueError'' msg_no_images)"
proof -
  have fails: "Multiprocesser_init lone_b_host ''/home/user/images'' ''image_*_a.bmp'' ''image_*_b.bmp'' =
     Inl (Exn ''ValueError'' msg_unequal)"
    unfolding ValueError_def [symmetric] by (rule init_unequal) (simp add: lone_b_globs)
  from construction_errors_share_type [of lone_b_host "''/home/user/images''" "''image_*_a.bmp''"
      "''image_*_b.bmp''" "Exn ''ValueError'' msg_unequal"] fails
  show ?thesis by (simp add: ValueError_def)
qed

text \<open>
  C10. Nothing in construction compares the two file sets: when some path matches both
  patterns and the two match counts are equal (and so not zero), construction succeeds,
  the path is in both file lists, it is the first frame of some task and the second
  frame of some task, and every task pairs the two lists by position alone.
\<close>

theorem shared_path_in_both_sets:
  assumes "p \<in> set (glob h (path_join (abspath h data_dir) pattern_a))"
    and "p \<in> set (glob h (path_join (abspath h data_dir) pattern_b))"
    and "length (glob h (path_join (abspath h data_dir) pattern_a)) =
         length (glob h (path_join (abspath h data_dir) pattern_b))"
  shows "\<exists>m. Multiprocesser_init h data_dir pattern_a pattern_b = Inr m \<and>
           p \<in> set (files_a m) \<and> p \<in> set (files_b m) \<and>
           (\<exists>i < length (image_pairs m). fst (image_pairs m ! i) = p) \<and>
           (\<exists>j < length (image_pairs m). fst (snd (image_pairs m ! j)) = p) \<and>
           (\<forall>i < length (image_pairs m).
              image_pairs m ! i = (files_a m ! i, files_b m ! i, int i))"
proof -
  let ?ga = "glob h (path_join (abspath h data_dir) pattern_a)"
  let ?gb = "glob h (path_join (abspath h data_dir) pattern_b)"
  let ?m = "\<lparr>files_a = sort ?ga, files_b = sort ?gb, n_files = int (length ?ga)\<rparr>"
  from assms(1) have ne: "?ga \<noteq> []" by auto
  have ok: "Multiprocesser_init h data_dir pattern_a pattern_b = Inr ?m"
    by (rule init_ok [OF assms(3) ne])
  note facts = init_success [OF ok]
  have len: "length (image_pairs ?m) = length (files_a ?m)"
    by (rule image_pairs_length [OF facts(3) facts(4)])
  have nth: "image_pairs ?m ! i = (files_a ?m ! i, files_b ?m ! i, int i)"
    if "i < length (image_pairs ?m)" for i
    using that len image_pairs_nth [OF facts(3) facts(4), of i] by simp
  have ina: "p \<in> set (files_a ?m)" using assms(1) by simp
  have inb: "p \<in> set (files_b ?m)" using assms(2) by simp
  from ina obtain i where i: "i < length (files_a ?m)" "files_a ?m ! i = p"
    by (auto simp only: in_set_conv_nth)
  from inb obtain j where j: "j < length (files_b ?m)" "files_b ?m ! j = p"
    by (auto simp only: in_set_conv_nth)
  have ia: "\<exists>i < length (image_pairs ?m). fst (image_pairs ?m ! i) = p"
    using i len nth [of i] by auto
  have jb: "\<exists>j < length (image_pairs ?m). fst (snd (image_pairs ?m ! j)) = p"
    using j len facts(4) nth [of j] by auto
  from ok ina inb ia jb nth show ?thesis by blast
qed

theorem shared_path_in_both_sets_witness:
  "''/d/a1'' \<in> set (glob overlap_host (path_join (abspath overlap_host ''/d'') ''a*'')) \<and>
   ''/d/a1'' \<in> set (glob overlap_host (path_join (abspath overlap_host ''/d'') ''*1'')) \<and>
   (\<exists>m. Multiprocesser_init overlap_host ''/d'' ''a*'' ''*1'' = Inr m \<and>
        ''/d/a1'' \<in> set (files_a m) \<and> ''/d/a1'' \<in> set (files_b m)) \<and>
   map_sum id image_pairs (Multiprocesser_init overlap_host ''/d'' ''a*'' ''*1'') =
     Inr [(''/d/a0'', ''/d/a1'', 0), (''/d/a1'', ''/d/b1'', 1)]"
proof -
  have pairs: "map_sum id image_pairs (Multiprocesser_init overlap_host ''/d'' ''a*'' ''*1'') =
     Inr [(''/d/a0'', ''/d/a1'', 0), (''/d/a1'', ''/d/b1'', 1)]"
    by code_simp
  have a: "''/d/a1'' \<in> set (glob overlap_host (path_join (abspath overlap_host ''/d'') ''a*''))"
    by (simp add: overlap_globs)
  have b: "''/d/a1'' \<in> set (glob overlap_host (path_join (abspath overlap_host ''/d'') ''*1''))"
    by (simp add: overlap_globs)
  have n: "length (glob overlap_host (path_join (abspath overlap_host ''/d'') ''a*'')) =
           length (glob overlap_host (path_join (abspath overlap_host ''/d'') ''*1''))"
    by (simp add: overlap_globs)
  from shared_path_in_both_sets [OF a b n] a b pairs show ?thesis by blast
qed

section \<open>Running in the calling process\<close>









end
